theory Spec2Isabelle
  imports Main "HOL-Library.Sublist"
begin

section \<open>Domain model\<close>

text \<open>
  The entities of \<^verbatim>\<open>@/types/nginx\<close>, with the fields the services read and write.
  JavaScript strings are modelled as \<^typ>\<open>string\<close>: texts whose code units are below 256.
  Identifiers are strings; \<^verbatim>\<open>null\<close> is \<open>None\<close>.
\<close>

datatype modifier = MNone | MExact | MRegex | MRegexI | MPrefixPri
  \<comment> \<open>the location modifiers \<^verbatim>\<open>''\<close>, \<^verbatim>\<open>'='\<close>, \<^verbatim>\<open>'~'\<close>, \<^verbatim>\<open>'~*'\<close>, \<^verbatim>\<open>'^~'\<close>\<close>

record CorsConfig =
  cors_enabled :: bool
  allowOrigin :: string
  allowMethods :: "string list"
  allowHeaders :: "string list"
  allowCredentials :: bool

record AccessControl =
  allow :: "string list"
  deny :: "string list"
  authBasic_enabled :: bool
  authBasic_realm :: string
  authBasic_userFile :: string

record LocationConfig =
  loc_id :: string
  serverId :: string
  modifier :: modifier
  path :: string
  proxyPass :: string
  upstreamId :: "string option"
  headers :: "(string \<times> string \<times> bool) list"
  cors :: CorsConfig
  websocket :: bool
  loc_alias :: string
  tryFiles :: string
  returnCode :: "int option"
  returnUrl :: string
  rewrite :: "(string \<times> string \<times> string) option"
  accessControl :: AccessControl
  loc_customDirectives :: string

record ListenConfig =
  port :: int
  defaultServer :: bool
  http2 :: bool

record SSLConfig =
  ssl_enabled :: bool
  certificate :: string
  certificateKey :: string
  protocols :: "string list"
  ciphers :: string
  forceRedirect :: bool

record ServerConfig =
  srv_id :: string
  srv_name :: string
  listen :: ListenConfig
  serverName :: string
  ssl :: SSLConfig
  root :: string
  index :: "string list"
  srv_customDirectives :: string

record GlobalConfig =
  user :: string
  workerProcesses :: string
  errorLog_path :: string
  errorLog_level :: string
  pid :: string
  glb_customDirectives :: string

record EventsConfig =
  workerConnections :: int
  multiAccept :: bool
  ev_customDirectives :: string

record GzipConfig =
  gz_enabled :: bool
  compLevel :: int
  minLength :: int
  types :: "string list"

text \<open>\<^verbatim>\<open>serverTokens\<close> is \<open>None\<close> when the field is not set.\<close>

record HttpConfig =
  sendfile :: bool
  tcpNopush :: bool
  tcpNodelay :: bool
  keepaliveTimeout :: int
  typesHashMaxSize :: int
  defaultType :: string
  serverTokens :: "bool option"
  clientMaxBodySize :: string
  gzip :: GzipConfig
  http_customDirectives :: string

record UpstreamServer =
  us_id :: string
  address :: string
  us_port :: int
  weight :: int
  maxFails :: int
  failTimeout :: int
  backup :: bool
  down :: bool

record UpstreamConfig =
  up_id :: string
  up_name :: string
  strategy :: string
  up_servers :: "UpstreamServer list"
  up_customDirectives :: string

record NginxConfig =
  global :: GlobalConfig
  events :: EventsConfig
  http :: HttpConfig
  upstreams :: "UpstreamConfig list"
  servers :: "ServerConfig list"
  locations :: "LocationConfig list"
  rawConfig :: "string option"


section \<open>JavaScript string primitives\<close>

text \<open>
  White space as \<^verbatim>\<open>String.prototype.trim\<close>, \<^verbatim>\<open>parseInt\<close> and the regex class \<^verbatim>\<open>\s\<close> take it,
  restricted to code units below 256: tab, line feed, vertical tab, form feed, carriage
  return, space and no-break space.
\<close>

definition isWhite :: "char \<Rightarrow> bool" where
  "isWhite c = (c \<in> set [CHR 0x09, CHR 0x0A, CHR 0x0B, CHR 0x0C, CHR 0x0D, CHR 0x20, CHR 0xA0])"


definition trimStart :: "string \<Rightarrow> string" where
  "trimStart s = dropWhile isWhite s"

definition trimEnd :: "string \<Rightarrow> string" where
  "trimEnd s = rev (dropWhile isWhite (rev s))"

definition trim :: "string \<Rightarrow> string" where
  "trim s = trimEnd (trimStart s)"

text \<open>\<^verbatim>\<open>s.split(c)\<close> for a one-character separator: never empty.\<close>

fun splitOn :: "char \<Rightarrow> string \<Rightarrow> string list" where
  "splitOn c [] = [[]]"
| "splitOn c (x # xs) =
     (if x = c then [] # splitOn c xs
      else (case splitOn c xs of [] \<Rightarrow> [[x]] | p # ps \<Rightarrow> (x # p) # ps))"

text \<open>\<^verbatim>\<open>parts.join(c)\<close>.\<close>

fun joinWith :: "char \<Rightarrow> string list \<Rightarrow> string" where
  "joinWith c [] = []"
| "joinWith c [p] = p"
| "joinWith c (p # q # ps) = p @ c # joinWith c (q # ps)"




text \<open>\<^verbatim>\<open>s.includes(sub)\<close>.\<close>

fun includes_str :: "string \<Rightarrow> string \<Rightarrow> bool" where
  "includes_str [] sub = (sub = [])"
| "includes_str (c # cs) sub = (prefix sub (c # cs) \<or> includes_str cs sub)"

text \<open>\<^verbatim>\<open>s.replace(pat, rep)\<close> for a string pattern: the first occurrence only.\<close>

fun replaceFirst :: "string \<Rightarrow> string \<Rightarrow> string \<Rightarrow> string" where
  "replaceFirst pat rep [] = (if pat = [] then rep else [])"
| "replaceFirst pat rep (c # cs) =
     (if prefix pat (c # cs) then rep @ drop (length pat) (c # cs)
      else c # replaceFirst pat rep cs)"

section \<open>Location matcher (\<^verbatim>\<open>matchLocation\<close>)\<close>

datatype MatchPriority = Exact | PrefixPriority | Regex | Prefix | NoMatch

text \<open>
  \<^verbatim>\<open>MatchResult\<close> without its two display strings (\<^verbatim>\<open>priorityLabel\<close>, \<^verbatim>\<open>matchReason\<close>),
  which are localised texts computed from \<^verbatim>\<open>priority\<close> and the matched location alone.
\<close>

record MatchResult =
  matchedLocation :: "LocationConfig option"
  priority :: MatchPriority

text \<open>
  The regular-expression engine is the host's: \<^verbatim>\<open>new RegExp(pattern, flags)\<close> either throws
  or yields an object whose \<^verbatim>\<open>test\<close> is a predicate on strings. It is a parameter
  \<open>rx pattern caseInsensitive\<close>, with \<open>None\<close> for a pattern that does not compile.
\<close>

type_synonym regexp_engine = "string \<Rightarrow> bool \<Rightarrow> (string \<Rightarrow> bool) option"

text \<open>Step 1: the first location with modifier \<^verbatim>\<open>=\<close> and an equal path.\<close>

fun exactLoop :: "string \<Rightarrow> LocationConfig list \<Rightarrow> LocationConfig option" where
  "exactLoop requestPath [] = None"
| "exactLoop requestPath (loc # locs) =
     (if modifier loc = MExact \<and> path loc = requestPath then Some loc
      else exactLoop requestPath locs)"

text \<open>Step 2: one iteration of the loop over \<^verbatim>\<open>(bestPrefixNode, bestPrefixLength)\<close>.\<close>

definition prefixStep ::
  "string \<Rightarrow> LocationConfig option \<times> nat \<Rightarrow> LocationConfig \<Rightarrow> LocationConfig option \<times> nat" where
  "prefixStep requestPath best loc =
     (if modifier loc = MNone \<or> modifier loc = MPrefixPri then
        if prefix (path loc) requestPath then
          if length (path loc) > snd best then (Some loc, length (path loc)) else best
        else best
      else best)"

definition prefixLoop :: "string \<Rightarrow> LocationConfig list \<Rightarrow> LocationConfig option \<times> nat" where
  "prefixLoop requestPath locs = foldl (prefixStep requestPath) (None, 0) locs"

text \<open>
  Step 4: the regex scan. The second component collects the patterns reported by
  \<^verbatim>\<open>console.warn\<close> in the \<^verbatim>\<open>catch\<close> branch, in order.
\<close>

fun regexLoop ::
  "regexp_engine \<Rightarrow> string \<Rightarrow> LocationConfig list \<Rightarrow> LocationConfig option \<times> string list" where
  "regexLoop rx requestPath [] = (None, [])"
| "regexLoop rx requestPath (loc # locs) =
     (if modifier loc = MRegex \<or> modifier loc = MRegexI then
        (case rx (path loc) (modifier loc = MRegexI) of
           None \<Rightarrow>
             (let (r, ws) = regexLoop rx requestPath locs in (r, path loc # ws))
         | Some test \<Rightarrow>
             if test requestPath then (Some loc, [])
             else regexLoop rx requestPath locs)
      else regexLoop rx requestPath locs)"

definition matchLocation ::
  "regexp_engine \<Rightarrow> string \<Rightarrow> LocationConfig list \<Rightarrow> MatchResult \<times> string list" where
  "matchLocation rx requestPath locs =
     (case exactLoop requestPath locs of
        Some loc \<Rightarrow> (\<lparr>matchedLocation = Some loc, priority = Exact\<rparr>, [])
      | None \<Rightarrow>
          (let bestPrefixNode = fst (prefixLoop requestPath locs) in
           if (case bestPrefixNode of Some b \<Rightarrow> modifier b = MPrefixPri | None \<Rightarrow> False)
           then (\<lparr>matchedLocation = bestPrefixNode, priority = PrefixPriority\<rparr>, [])
           else
             (case regexLoop rx requestPath locs of
                (Some loc, ws) \<Rightarrow> (\<lparr>matchedLocation = Some loc, priority = Regex\<rparr>, ws)
              | (None, ws) \<Rightarrow>
                  (case bestPrefixNode of
                     Some b \<Rightarrow> (\<lparr>matchedLocation = Some b, priority = Prefix\<rparr>, ws)
                   | None \<Rightarrow> (\<lparr>matchedLocation = None, priority = NoMatch\<rparr>, ws)))))"

text \<open>
  The five tiers as the specification words them: the first exact hit; the first longest
  prefix candidate; the prefix-priority shortcut; the first regex hit in declaration order;
  the fallback to the prefix candidate.
\<close>

definition isPrefixType :: "LocationConfig \<Rightarrow> bool" where
  "isPrefixType l = (modifier l = MNone \<or> modifier l = MPrefixPri)"

definition exactTier :: "string \<Rightarrow> LocationConfig list \<Rightarrow> LocationConfig option" where
  "exactTier p locs = find (\<lambda>l. modifier l = MExact \<and> path l = p) locs"



definition regexHit :: "regexp_engine \<Rightarrow> string \<Rightarrow> LocationConfig \<Rightarrow> bool" where
  "regexHit rx p l =
     ((modifier l = MRegex \<or> modifier l = MRegexI) \<and>
      (case rx (path l) (modifier l = MRegexI) of Some t \<Rightarrow> t p | None \<Rightarrow> False))"



text \<open>The locs of the specification's concrete cases, over any base record.\<close>

definition mkLocation :: "LocationConfig \<Rightarrow> modifier \<Rightarrow> string \<Rightarrow> LocationConfig" where
  "mkLocation base m p = base\<lparr>modifier := m, path := p\<rparr>"

definition imagePattern :: string where
  "imagePattern = CHR 0x5C # ''.(png|jpg)$''"

definition exampleLocations :: "LocationConfig \<Rightarrow> LocationConfig list" where
  "exampleLocations base =
     [mkLocation base MExact ''/health'', mkLocation base MPrefixPri ''/static/'',
      mkLocation base MRegexI imagePattern, mkLocation base MNone ''/'']"


text \<open>
  A concrete location record and a concrete engine for evaluating the matcher: the engine
  compiles the image pattern with the \<^verbatim>\<open>i\<close> flag only, and its test accepts the paths that
  end in one of the two extensions, in lower or upper case.
\<close>

definition sampleLocation :: LocationConfig where
  "sampleLocation =
     \<lparr>loc_id = ''loc-1'', serverId = ''srv-1'', modifier = MNone, path = ''/'',
      proxyPass = [], upstreamId = None, headers = [],
      cors = \<lparr>cors_enabled = False, allowOrigin = [], allowMethods = [], allowHeaders = [],
               allowCredentials = False\<rparr>,
      websocket = False, loc_alias = [], tryFiles = [], returnCode = None, returnUrl = [],
      rewrite = None,
      accessControl = \<lparr>allow = [], deny = [], authBasic_enabled = False, authBasic_realm = [],
                        authBasic_userFile = []\<rparr>,
      loc_customDirectives = []\<rparr>"

definition imageTest :: "string \<Rightarrow> bool" where
  "imageTest s = (suffix ''.png'' s \<or> suffix ''.jpg'' s \<or> suffix ''.PNG'' s \<or> suffix ''.JPG'' s)"

definition imageEngine :: regexp_engine where
  "imageEngine pat ci = (if pat = imagePattern \<and> ci then Some imageTest else None)"

section \<open>Model builder: the \<^verbatim>\<open>listen\<close> directive (\<^verbatim>\<open>parseListenDirective\<close>)\<close>







section \<open>Regular expressions of the cleaners\<close>

text \<open>
  The cleaners build their patterns from a small fragment of the host's regular-expression
  language: the anchors \<^verbatim>\<open>^\<close> and \<^verbatim>\<open>$\<close> under the \<^verbatim>\<open>m\<close> flag, literal characters (compared
  through the canonicalisation of the \<^verbatim>\<open>i\<close> flag when it is set), character classes, the
  greedy star of a class, sequence and ordered alternative. \<^verbatim>\<open>r?\<close> is \<open>Alt r Eps\<close> and
  \<^verbatim>\<open>[c]+\<close> is a class followed by its star.
\<close>

datatype rx =
    Eps
  | Bol
  | Eol
  | Lit char
  | Cls "char \<Rightarrow> bool"
  | Star "char \<Rightarrow> bool"
  | Seq rx rx
  | Alt rx rx

definition Opt :: "rx \<Rightarrow> rx" where
  "Opt r = Alt r Eps"

definition Plus :: "(char \<Rightarrow> bool) \<Rightarrow> rx" where
  "Plus P = Seq (Cls P) (Star P)"

fun lits :: "string \<Rightarrow> rx" where
  "lits [] = Eps"
| "lits (c # cs) = Seq (Lit c) (lits cs)"

text \<open>Line terminators, for the anchors; the two below 256.\<close>

definition isTerm :: "char \<Rightarrow> bool" where
  "isTerm c = (c = CHR 0x0A \<or> c = CHR 0x0D)"

definition eol :: "string \<Rightarrow> bool" where
  "eol s = (case s of [] \<Rightarrow> True | c # _ \<Rightarrow> isTerm c)"

text \<open>
  The canonicalisation of the \<^verbatim>\<open>i\<close> flag (without \<^verbatim>\<open>u\<close>) on code units below 256: the
  upper-case mapping where it stays a single code unit in the same range.
\<close>

definition canon :: "char \<Rightarrow> char" where
  "canon c =
     (let n = (of_char c :: nat)
      in if (97 \<le> n \<and> n \<le> 122) \<or> (224 \<le> n \<and> n \<le> 254 \<and> n \<noteq> 247)
         then char_of (n - 32) else c)"

definition litEq :: "bool \<Rightarrow> char \<Rightarrow> char \<Rightarrow> bool" where
  "litEq ci k c = (if ci then canon k = canon c else k = c)"

text \<open>The weight by which the matcher's recursion on the pattern decreases.\<close>

fun rxWeight :: "rx \<Rightarrow> nat" where
  "rxWeight (Seq r1 r2) = rxWeight r1 + rxWeight r2 + 1"
| "rxWeight (Alt r1 r2) = rxWeight r1 + rxWeight r2 + 1"
| "rxWeight r = 1"

text \<open>
  The backtracking matcher. \<open>rmatch ci rs b s\<close> matches the sequence \<open>rs\<close> at the head of
  \<open>s\<close>, where \<open>b\<close> tells whether the position is the start of the input or follows a line
  terminator; it returns the input left after the first match in the engine's order
  (the left alternative first, the longest repetition first).
\<close>

function rmatch :: "bool \<Rightarrow> rx list \<Rightarrow> bool \<Rightarrow> string \<Rightarrow> string option" where
  "rmatch ci [] b s = Some s"
| "rmatch ci (Eps # k) b s = rmatch ci k b s"
| "rmatch ci (Bol # k) b s = (if b then rmatch ci k b s else None)"
| "rmatch ci (Eol # k) b s = (if eol s then rmatch ci k b s else None)"
| "rmatch ci (Lit c # k) b [] = None"
| "rmatch ci (Lit c # k) b (x # xs) = (if litEq ci c x then rmatch ci k (isTerm x) xs else None)"
| "rmatch ci (Cls P # k) b [] = None"
| "rmatch ci (Cls P # k) b (x # xs) = (if P x then rmatch ci k (isTerm x) xs else None)"
| "rmatch ci (Star P # k) b [] = rmatch ci k b []"
| "rmatch ci (Star P # k) b (x # xs) =
     (if P x then
        (case rmatch ci (Star P # k) (isTerm x) xs of
           Some r \<Rightarrow> Some r
         | None \<Rightarrow> rmatch ci k b (x # xs))
      else rmatch ci k b (x # xs))"
| "rmatch ci (Seq r1 r2 # k) b s = rmatch ci (r1 # r2 # k) b s"
| "rmatch ci (Alt r1 r2 # k) b s =
     (case rmatch ci (r1 # k) b s of
        Some r \<Rightarrow> Some r
      | None \<Rightarrow> rmatch ci (r2 # k) b s)"
  by pat_completeness auto
termination
  by (relation "measures [\<lambda>(ci, rs, b, s). sum_list (map rxWeight rs), \<lambda>(ci, rs, b, s). length s]")
     auto

text \<open>\<^verbatim>\<open>regex.test(s)\<close> without the \<^verbatim>\<open>g\<close> flag: a match at some position.\<close>

fun rtest :: "bool \<Rightarrow> rx list \<Rightarrow> bool \<Rightarrow> string \<Rightarrow> bool" where
  "rtest ci rs b [] = (rmatch ci rs b [] \<noteq> None)"
| "rtest ci rs b (x # xs) = (rmatch ci rs b (x # xs) \<noteq> None \<or> rtest ci rs (isTerm x) xs)"

text \<open>
  \<^verbatim>\<open>s.replace(regex, rep)\<close> with the \<^verbatim>\<open>g\<close> flag and a replacement without \<^verbatim>\<open>$\<close> patterns:
  every match, found from left to right from the end of the previous one, is replaced;
  after an empty match the scan moves on by one character.
\<close>

function replaceAll :: "bool \<Rightarrow> rx list \<Rightarrow> string \<Rightarrow> bool \<Rightarrow> string \<Rightarrow> string" where
  "replaceAll ci rs rep b [] = (case rmatch ci rs b [] of Some r \<Rightarrow> rep | None \<Rightarrow> [])"
| "replaceAll ci rs rep b (x # xs) =
     (case rmatch ci rs b (x # xs) of
        Some r \<Rightarrow>
          if length r < length (x # xs)
          then rep @ replaceAll ci rs rep
                 (isTerm (last (take (length (x # xs) - length r) (x # xs)))) r
          else rep @ x # replaceAll ci rs rep (isTerm x) xs
      | None \<Rightarrow> x # replaceAll ci rs rep (isTerm x) xs)"
  by pat_completeness auto
termination
  by (relation "measure (\<lambda>(ci, rs, rep, b, s). length s)") auto

definition removeAll :: "bool \<Rightarrow> rx list \<Rightarrow> bool \<Rightarrow> string \<Rightarrow> string" where
  "removeAll ci rs b s = replaceAll ci rs [] b s"

text \<open>The classes \<^verbatim>\<open>\s\<close>, \<^verbatim>\<open>[^;]\<close> and \<^verbatim>\<open>['"]\<close>.\<close>

definition notSemi :: "char \<Rightarrow> bool" where
  "notSemi c = (c \<noteq> CHR '';'')"

definition isQuote :: "char \<Rightarrow> bool" where
  "isQuote c = (c = CHR 0x27 \<or> c = CHR 0x22)"

section \<open>Directive cleaner (\<^verbatim>\<open>ConfigCleaner\<close>)\<close>

text \<open>
  The pattern \<^verbatim>\<open>^\s*KEY\s+[^;]+;?\s*$\<close> of the table \<^verbatim>\<open>DIRECTIVE_PATTERNS\<close> and of the generic
  branch. In the generic branch the key goes through \<^verbatim>\<open>escapeRegex\<close>, which escapes every
  syntax character, so that the pattern matches the key's characters literally.
\<close>

definition linePattern :: "string \<Rightarrow> rx list" where
  "linePattern key =
     [Bol, Star isWhite, lits key, Plus isWhite, Plus notSemi, Opt (Lit CHR '';''),
      Star isWhite, Eol]"

text \<open>\<^verbatim>\<open>createAddHeaderPattern\<close>: \<^verbatim>\<open>^\s*add_header\s+['"]?NAME['"]?\s+[^;]+;?\s*$\<close>.\<close>

definition createAddHeaderPattern :: "string \<Rightarrow> rx list" where
  "createAddHeaderPattern headerName =
     [Bol, Star isWhite, lits ''add_header'', Plus isWhite, Opt (Cls isQuote), lits headerName,
      Opt (Cls isQuote), Plus isWhite, Plus notSemi, Opt (Lit CHR '';''), Star isWhite, Eol]"

text \<open>\<^verbatim>\<open>createProxySetHeaderPattern\<close>: \<^verbatim>\<open>^\s*proxy_set_header\s+NAME\s+[^;]+;?\s*$\<close>.\<close>

definition createProxySetHeaderPattern :: "string \<Rightarrow> rx list" where
  "createProxySetHeaderPattern headerName =
     [Bol, Star isWhite, lits ''proxy_set_header'', Plus isWhite, lits headerName,
      Plus isWhite, Plus notSemi, Opt (Lit CHR '';''), Star isWhite, Eol]"

text \<open>The keys of \<^verbatim>\<open>DIRECTIVE_PATTERNS\<close>; each maps to its line pattern with flags \<^verbatim>\<open>gm\<close>.\<close>

definition directiveKeys :: "string list" where
  "directiveKeys =
     [''user'', ''worker_processes'', ''error_log'', ''pid'',
      ''autoindex'', ''server_tokens'',
      ''ssl_protocols'', ''ssl_ciphers'', ''ssl_prefer_server_ciphers'', ''ssl_certificate'',
      ''ssl_certificate_key'',
      ''sendfile'', ''tcp_nopush'', ''tcp_nodelay'', ''keepalive_timeout'', ''client_max_body_size'',
      ''gzip'', ''gzip_comp_level'', ''gzip_min_length'', ''gzip_types'',
      ''root'', ''index'', ''try_files'', ''alias'',
      ''proxy_pass'', ''proxy_http_version'',
      ''return'', ''rewrite'']"

definition DIRECTIVE_PATTERNS :: "string \<Rightarrow> rx list option" where
  "DIRECTIVE_PATTERNS key = (if key \<in> set directiveKeys then Some (linePattern key) else None)"

text \<open>
  The callback of \<^verbatim>\<open>cleanAndFormat\<close>'s filter: \<open>prev\<close> is the line before in the unfiltered
  array, \<open>None\<close> at index 0. A non-blank line is kept; a blank line is kept when the line
  before it is not blank.
\<close>

fun filterLines :: "string option \<Rightarrow> string list \<Rightarrow> string list" where
  "filterLines prev [] = []"
| "filterLines prev (line # ls) =
     (if trim line \<noteq> [] then line # filterLines (Some line) ls
      else (case prev of
              None \<Rightarrow> filterLines (Some line) ls
            | Some p \<Rightarrow>
                if trim p \<noteq> [] then line # filterLines (Some line) ls
                else filterLines (Some line) ls))"

definition cleanAndFormat :: "string \<Rightarrow> string" where
  "cleanAndFormat text = trim (joinWith CHR 0x0A (filterLines None (splitOn CHR 0x0A text)))"

definition removeDirective :: "string \<Rightarrow> string \<Rightarrow> string" where
  "removeDirective text directiveName =
     (if trim text = [] then []
      else if prefix ''add_header '' directiveName then
        (let headerName = trim (replaceFirst ''add_header '' [] directiveName)
         in cleanAndFormat (removeAll True (createAddHeaderPattern headerName) True text))
      else if prefix ''proxy_set_header '' directiveName then
        (let headerName = trim (replaceFirst ''proxy_set_header '' [] directiveName)
         in cleanAndFormat (removeAll True (createProxySetHeaderPattern headerName) True text))
      else
        (case DIRECTIVE_PATTERNS directiveName of
           Some pattern \<Rightarrow> cleanAndFormat (removeAll False pattern True text)
         | None \<Rightarrow> cleanAndFormat (removeAll True (linePattern directiveName) True text)))"

definition removeDirectives :: "string \<Rightarrow> string list \<Rightarrow> string" where
  "removeDirectives text directiveNames = foldl removeDirective text directiveNames"

definition smartAddDirective :: "string \<Rightarrow> string \<Rightarrow> string \<Rightarrow> string" where
  "smartAddDirective existingText newDirective directiveName =
     (let cleaned = removeDirective existingText directiveName
      in if trim cleaned \<noteq> [] then cleaned @ [CHR 0x0A] @ newDirective else newDirective)"

definition smartAddHeader :: "string \<Rightarrow> string \<Rightarrow> string \<Rightarrow> bool \<Rightarrow> string" where
  "smartAddHeader existingText headerName headerValue always =
     (let alwaysSuffix = (if always then '' always'' else []);
          newDirective = ''add_header '' @ headerName @ '' '' @ [CHR 0x22] @ headerValue @ [CHR 0x22]
                         @ alwaysSuffix @ '';''
      in smartAddDirective existingText newDirective (''add_header '' @ headerName))"

text \<open>
  \<^verbatim>\<open>ConfigCleaner.isRedirectServer\<close>: the test \<^verbatim>\<open>/^\s*return\s+(301|302|307|308)\s+/m\<close> on the
  passthrough text.
\<close>

definition redirectPattern :: "rx list" where
  "redirectPattern =
     [Bol, Star isWhite, lits ''return'', Plus isWhite,
      Alt (lits ''301'') (Alt (lits ''302'') (Alt (lits ''307'') (lits ''308''))),
      Plus isWhite]"

definition isRedirectText :: "string \<Rightarrow> bool" where
  "isRedirectText text = rtest False redirectPattern True text"

section \<open>Destructive repair (\<^verbatim>\<open>AutoFixService\<close>)\<close>





definition redirectDirective :: string where
  "redirectDirective = ''return 301 https://$host$request_uri;''"

definition convertToPureRedirectHttpServer :: "ServerConfig \<Rightarrow> string \<Rightarrow> ServerConfig" where
  "convertToPureRedirectHttpServer server sname =
     server\<lparr>srv_name := sname @ '' (HTTP Redirect)'',
            listen := (listen server)\<lparr>port := 80, http2 := False, defaultServer := False\<rparr>,
            serverName := sname,
            ssl := (ssl server)\<lparr>ssl_enabled := False, forceRedirect := False, certificate := [],
                                 certificateKey := [], protocols := [], ciphers := []\<rparr>,
            root := [],
            index := [],
            srv_customDirectives := redirectDirective\<rparr>"

text \<open>
  \<^verbatim>\<open>findHttpNode\<close>. The port is a number, and \<^verbatim>\<open>String(port) === '80'\<close> holds exactly when it
  is 80. \<open>excludeServerId\<close> is \<open>None\<close> when the argument is omitted.
\<close>

definition isHttpNodeFor :: "string \<Rightarrow> string option \<Rightarrow> ServerConfig \<Rightarrow> bool" where
  "isHttpNodeFor sname excludeServerId s =
     (Some (srv_id s) \<noteq> excludeServerId \<and> port (listen s) = 80 \<and> serverName s = sname)"

definition findHttpNode :: "NginxConfig \<Rightarrow> string \<Rightarrow> string option \<Rightarrow> ServerConfig option" where
  "findHttpNode config sname excludeServerId =
     find (isHttpNodeFor sname excludeServerId) (servers config)"





text \<open>
  Identifiers come from \<^verbatim>\<open>uuidv4()\<close>. The generator is a parameter: \<open>gen n\<close> is the
  identifier of the \<open>n\<close>-th call, and every function that may call it takes the number of
  calls made so far and returns the number after.
\<close>

type_synonym uuidgen = "nat \<Rightarrow> string"

definition applyForceHttps ::
  "uuidgen \<Rightarrow> nat \<Rightarrow> NginxConfig \<Rightarrow> string \<Rightarrow> NginxConfig \<times> nat" where
  "applyForceHttps gen n config httpsServerId =
     (case find (\<lambda>s. srv_id s = httpsServerId) (servers config) of
        None \<Rightarrow> (config, n)
      | Some httpsServer \<Rightarrow>
          (let sname = serverName httpsServer;
               existingHttp = findHttpNode config sname (Some httpsServerId);
               clearFlag = map (\<lambda>s. if srv_id s = httpsServerId
                                     then s\<lparr>ssl := (ssl s)\<lparr>ssl_enabled := True, forceRedirect := False\<rparr>\<rparr>
                                     else s)
           in (case existingHttp of
                 Some existing \<Rightarrow>
                   (let nextLocations1 = filter (\<lambda>l. serverId l \<noteq> srv_id existing) (locations config);
                        nextServers1 = map (\<lambda>s. if srv_id s = srv_id existing
                                                  then convertToPureRedirectHttpServer s sname else s)
                                         (servers config);
                        redirectId = srv_id existing;
                        extraHttpServers = filter (\<lambda>s. srv_id s \<noteq> redirectId \<and> port (listen s) = 80 \<and>
                                                       serverName s = sname) nextServers1;
                        extraIds = set (map srv_id extraHttpServers);
                        nextServers2 = (if length extraHttpServers > 0
                                        then filter (\<lambda>s. srv_id s \<notin> extraIds) nextServers1
                                        else nextServers1);
                        nextLocations2 = (if length extraHttpServers > 0
                                          then filter (\<lambda>l. serverId l \<notin> extraIds) nextLocations1
                                          else nextLocations1)
                    in (config\<lparr>servers := clearFlag nextServers2, locations := nextLocations2\<rparr>, n))
               | None \<Rightarrow>
                   (let redirectServer = convertToPureRedirectHttpServer
                          \<lparr>srv_id = gen n,
                           srv_name = sname @ '' (HTTP Redirect)'',
                           listen = \<lparr>port = 80, defaultServer = False, http2 = False\<rparr>,
                           serverName = sname,
                           ssl = (ssl httpsServer)\<lparr>ssl_enabled := False, forceRedirect := False,
                                   protocols := [], ciphers := [], certificate := [],
                                   certificateKey := []\<rparr>,
                           root = [], index = [], srv_customDirectives = []\<rparr> sname
                    in (config\<lparr>servers := clearFlag (servers config @ [redirectServer]),
                               locations := locations config\<rparr>, Suc n)))))"



text \<open>
  A configuration for the port-collision resolver: a TLS server with a forced redirect that
  itself listens on port 80, and a plain server on port 80 with the same server name, each
  owning one location.
\<close>

definition plainHttpServer :: ServerConfig where
  "plainHttpServer =
     \<lparr>srv_id = ''srv-http'', srv_name = ''Plain'',
      listen = \<lparr>port = 80, defaultServer = True, http2 = False\<rparr>,
      serverName = ''example.com'',
      ssl = \<lparr>ssl_enabled = False, certificate = [], certificateKey = [], protocols = [],
             ciphers = [], forceRedirect = False\<rparr>,
      root = ''/var/www/html'', index = [''index.html''], srv_customDirectives = ''charset utf-8;''\<rparr>"

definition tlsOnPort80 :: ServerConfig where
  "tlsOnPort80 =
     \<lparr>srv_id = ''srv-tls'', srv_name = ''Main'',
      listen = \<lparr>port = 80, defaultServer = False, http2 = True\<rparr>,
      serverName = ''example.com'',
      ssl = \<lparr>ssl_enabled = True, certificate = ''/etc/ssl/c.pem'', certificateKey = ''/etc/ssl/k.pem'',
             protocols = [''TLSv1''], ciphers = ''HIGH'', forceRedirect = True\<rparr>,
      root = ''/var/www/html'', index = [''index.html''], srv_customDirectives = []\<rparr>"

definition emptyGlobal :: GlobalConfig where
  "emptyGlobal =
     \<lparr>user = ''nginx'', workerProcesses = ''auto'', errorLog_path = ''/var/log/nginx/error.log'',
      errorLog_level = ''warn'', pid = ''/run/nginx.pid'', glb_customDirectives = []\<rparr>"

definition plainEvents :: EventsConfig where
  "plainEvents = \<lparr>workerConnections = 1024, multiAccept = False, ev_customDirectives = []\<rparr>"

definition plainHttp :: HttpConfig where
  "plainHttp =
     \<lparr>sendfile = True, tcpNopush = True, tcpNodelay = True, keepaliveTimeout = 65,
      typesHashMaxSize = 2048, defaultType = ''application/octet-stream'', serverTokens = Some False,
      clientMaxBodySize = ''10m'',
      gzip = \<lparr>gz_enabled = True, compLevel = 6, minLength = 1024, types = [''text/plain'']\<rparr>,
      http_customDirectives = []\<rparr>"

definition collisionConfig :: "ServerConfig \<Rightarrow> NginxConfig" where
  "collisionConfig tlsServer =
     \<lparr>global = emptyGlobal, events = plainEvents, http = plainHttp, upstreams = [],
      servers = [tlsServer, plainHttpServer],
      locations = [sampleLocation\<lparr>loc_id := ''loc-tls'', serverId := ''srv-tls''\<rparr>,
                   sampleLocation\<lparr>loc_id := ''loc-http'', serverId := ''srv-http''\<rparr>],
      rawConfig = None\<rparr>"

definition firstUuid :: uuidgen where
  "firstUuid n = ''uuid-'' @ replicate n CHR ''i''"

text \<open>
  What the resolver leaves when it finds an existing port-80 server \<open>tid\<close> for the name
  \<open>sname\<close> of the target \<open>sid\<close>: the converted server, without the other port-80
  servers of that name, and the locations of neither.
\<close>

definition hijackServers :: "NginxConfig \<Rightarrow> string \<Rightarrow> string \<Rightarrow> string \<Rightarrow> ServerConfig list" where
  "hijackServers config sid sname tid =
     map (\<lambda>s. if srv_id s = sid
              then s\<lparr>ssl := (ssl s)\<lparr>ssl_enabled := True, forceRedirect := False\<rparr>\<rparr> else s)
       (filter (\<lambda>s. srv_id s \<notin> set (map srv_id
                  (filter (\<lambda>s. srv_id s \<noteq> tid \<and> port (listen s) = 80 \<and> serverName s = sname)
                     (map (\<lambda>s. if srv_id s = tid then convertToPureRedirectHttpServer s sname else s)
                        (servers config)))))
          (map (\<lambda>s. if srv_id s = tid then convertToPureRedirectHttpServer s sname else s)
             (servers config)))"

definition hijackLocations :: "NginxConfig \<Rightarrow> string \<Rightarrow> string \<Rightarrow> LocationConfig list" where
  "hijackLocations config sname tid =
     filter (\<lambda>l. serverId l \<notin> set (map srv_id
                  (filter (\<lambda>s. srv_id s \<noteq> tid \<and> port (listen s) = 80 \<and> serverName s = sname)
                     (map (\<lambda>s. if srv_id s = tid then convertToPureRedirectHttpServer s sname else s)
                        (servers config)))))
       (filter (\<lambda>l. serverId l \<noteq> tid) (locations config))"



















section \<open>Audit engine\<close>

datatype AuditSeverity = Critical | Warning | Info

datatype AuditCategory = Security | Performance | ConfigLogic

datatype NodeType = NGlobal | NHttp | NEvents | NServer | NLocation | NUpstream

text \<open>
  An issue, without its display texts (titles, descriptions and fix labels in two
  languages), which nothing in the engine reads.
\<close>

record AuditIssue =
  iss_id :: string
  ruleId :: string
  severity :: AuditSeverity
  category :: AuditCategory
  affectedNodeId :: "string option"
  affectedNodeType :: "NodeType option"
  canAutoFix :: bool

text \<open>\<^verbatim>\<open>Partial<NginxConfig>\<close>: each key is present or not.\<close>

record PartialConfig =
  p_global :: "GlobalConfig option"
  p_events :: "EventsConfig option"
  p_http :: "HttpConfig option"
  p_upstreams :: "UpstreamConfig list option"
  p_servers :: "ServerConfig list option"
  p_locations :: "LocationConfig list option"
  p_rawConfig :: "string option option"

definition emptyPartial :: PartialConfig where
  "emptyPartial =
     \<lparr>p_global = None, p_events = None, p_http = None, p_upstreams = None, p_servers = None,
      p_locations = None, p_rawConfig = None\<rparr>"

text \<open>\<^verbatim>\<open>Object.keys(fix).length\<close>.\<close>

definition keyCount :: "PartialConfig \<Rightarrow> nat" where
  "keyCount p =
     (if p_global p = None then 0 else 1) + (if p_events p = None then 0 else 1) +
     (if p_http p = None then 0 else 1) + (if p_upstreams p = None then 0 else 1) +
     (if p_servers p = None then 0 else 1) + (if p_locations p = None then 0 else 1) +
     (if p_rawConfig p = None then 0 else 1)"

text \<open>The spread \<^verbatim>\<open>{ ...config, ...fix }\<close>.\<close>

definition mergePartial :: "NginxConfig \<Rightarrow> PartialConfig \<Rightarrow> NginxConfig" where
  "mergePartial config p =
     \<lparr>global = (case p_global p of Some g \<Rightarrow> g | None \<Rightarrow> global config),
      events = (case p_events p of Some e \<Rightarrow> e | None \<Rightarrow> events config),
      http = (case p_http p of Some h \<Rightarrow> h | None \<Rightarrow> http config),
      upstreams = (case p_upstreams p of Some u \<Rightarrow> u | None \<Rightarrow> upstreams config),
      servers = (case p_servers p of Some s \<Rightarrow> s | None \<Rightarrow> servers config),
      locations = (case p_locations p of Some l \<Rightarrow> l | None \<Rightarrow> locations config),
      rawConfig = (case p_rawConfig p of Some r \<Rightarrow> r | None \<Rightarrow> rawConfig config)\<rparr>"

record AuditRule =
  rule_id :: string
  rule_severity :: AuditSeverity
  rule_category :: AuditCategory
  rule_check :: "uuidgen \<Rightarrow> nat \<Rightarrow> NginxConfig \<Rightarrow> AuditIssue list \<times> nat"
  rule_fix :: "(uuidgen \<Rightarrow> nat \<Rightarrow> NginxConfig \<Rightarrow> string \<Rightarrow> PartialConfig \<times> nat) option"

text \<open>
  Modelled from the spec: \<^verbatim>\<open>isRedirectServer\<close> of \<^verbatim>\<open>@/utils/configGenerator\<close> is not among
  the sources. The specification exempts a server whose passthrough text matches the
  redirect-statement pattern \<^verbatim>\<open>return 30{1,2,7,8} ...\<close>; this is the test that
  \<^verbatim>\<open>ConfigCleaner.isRedirectServer\<close> and \<^verbatim>\<open>isRedirectOnlyServer\<close> make.
\<close>

definition isRedirectServer :: "ServerConfig \<Rightarrow> bool" where
  "isRedirectServer server = isRedirectText (srv_customDirectives server)"

definition serverNeedsSecurityHeaders :: "ServerConfig \<Rightarrow> bool" where
  "serverNeedsSecurityHeaders server = (\<not> isRedirectServer server)"

text \<open>
  \<^verbatim>\<open>hasAddHeader\<close>: the test \<^verbatim>\<open>/add_header\s+['"]?NAME['"]?\s+/i\<close>. The three header names
  it is called with contain no syntax character.
\<close>

definition hasAddHeader :: "string \<Rightarrow> string \<Rightarrow> bool" where
  "hasAddHeader customDirectives headerName =
     rtest True
       [lits ''add_header'', Plus isWhite, Opt (Cls isQuote), lits headerName, Opt (Cls isQuote),
        Plus isWhite] True customDirectives"

definition mkIssue ::
  "string \<Rightarrow> string \<Rightarrow> AuditSeverity \<Rightarrow> AuditCategory \<Rightarrow> string option \<Rightarrow> NodeType \<Rightarrow> bool \<Rightarrow> AuditIssue" where
  "mkIssue i rid sev cat node ntype auto =
     \<lparr>iss_id = i, ruleId = rid, severity = sev, category = cat, affectedNodeId = node,
      affectedNodeType = Some ntype, canAutoFix = auto\<rparr>"

text \<open>
  A check that reports one issue on the whole configuration, and the \<^verbatim>\<open>forEach\<close> of a
  check that reports one issue for each node that fails a test.
\<close>

definition singleIssue ::
  "bool \<Rightarrow> (string \<Rightarrow> AuditIssue) \<Rightarrow> uuidgen \<Rightarrow> nat \<Rightarrow> AuditIssue list \<times> nat" where
  "singleIssue failing mk gen n = (if failing then ([mk (gen n)], Suc n) else ([], n))"

fun forEachIssue ::
  "('a \<Rightarrow> bool) \<Rightarrow> (string \<Rightarrow> 'a \<Rightarrow> AuditIssue) \<Rightarrow> uuidgen \<Rightarrow> nat \<Rightarrow> 'a list \<Rightarrow> AuditIssue list \<times> nat" where
  "forEachIssue failing mk gen n [] = ([], n)"
| "forEachIssue failing mk gen n (x # xs) =
     (if failing x then
        (let (issues, n') = forEachIssue failing mk gen (Suc n) xs in (mk (gen n) x # issues, n'))
      else forEachIssue failing mk gen n xs)"

subsection \<open>Security rules\<close>

definition check_server_tokens :: "uuidgen \<Rightarrow> nat \<Rightarrow> NginxConfig \<Rightarrow> AuditIssue list \<times> nat" where
  "check_server_tokens gen n config =
     singleIssue (serverTokens (http config) \<noteq> Some False)
       (\<lambda>i. mkIssue i ''security-server-tokens'' Critical Security None NHttp True) gen n"

definition fix_server_tokens :: "NginxConfig \<Rightarrow> PartialConfig" where
  "fix_server_tokens config =
     emptyPartial\<lparr>p_http := Some ((http config)
        \<lparr>serverTokens := Some False,
         http_customDirectives :=
           removeDirective (http_customDirectives (http config)) ''server_tokens''\<rparr>)\<rparr>"

definition backslashDot :: string where
  "backslashDot = [CHR 0x5C, CHR ''.'']"

definition hasHiddenFileRule :: "LocationConfig list \<Rightarrow> bool" where
  "hasHiddenFileRule serverLocations =
     list_ex (\<lambda>l. includes_str (path l) backslashDot \<or> includes_str (path l) (CHR ''/'' # backslashDot)
                   \<or> path l = ''~ /'' @ backslashDot) serverLocations"

definition hiddenFilesFailing :: "NginxConfig \<Rightarrow> ServerConfig \<Rightarrow> bool" where
  "hiddenFilesFailing config server =
     (if isRedirectServer server then False
      else (let serverLocations = filter (\<lambda>l. serverId l = srv_id server) (locations config)
            in \<not> hasHiddenFileRule serverLocations \<and> length serverLocations > 0))"

definition check_hidden_files :: "uuidgen \<Rightarrow> nat \<Rightarrow> NginxConfig \<Rightarrow> AuditIssue list \<times> nat" where
  "check_hidden_files gen n config =
     forEachIssue (hiddenFilesFailing config)
       (\<lambda>i server. mkIssue i ''security-hidden-files'' Critical Security (Some (srv_id server))
                      NServer True)
       gen n (servers config)"

text \<open>
  The comment that the new location carries is a text outside the 8-bit range: it is a
  parameter of the model, \<open>note\<close>.
\<close>

definition hiddenFilesLocation :: "string \<Rightarrow> string \<Rightarrow> string \<Rightarrow> LocationConfig" where
  "hiddenFilesLocation note i affected =
     \<lparr>loc_id = i, serverId = affected, modifier = MRegex, path = CHR ''/'' # backslashDot,
      proxyPass = [], upstreamId = None, headers = [],
      cors = \<lparr>cors_enabled = False, allowOrigin = [], allowMethods = [], allowHeaders = [],
               allowCredentials = False\<rparr>,
      websocket = False, loc_alias = [], tryFiles = [], returnCode = Some 403, returnUrl = [],
      rewrite = None,
      accessControl = \<lparr>allow = [], deny = [], authBasic_enabled = False, authBasic_realm = [],
                        authBasic_userFile = []\<rparr>,
      loc_customDirectives = note\<rparr>"

definition fix_hidden_files ::
  "string \<Rightarrow> uuidgen \<Rightarrow> nat \<Rightarrow> NginxConfig \<Rightarrow> string \<Rightarrow> PartialConfig \<times> nat" where
  "fix_hidden_files note gen n config affected =
     (if affected = [] then (emptyPartial, n)
      else (case find (\<lambda>l. serverId l = affected \<and>
                           (includes_str (path l) backslashDot \<or> path l = ''~ /'' @ backslashDot))
                   (locations config) of
              Some existingHiddenRule \<Rightarrow> (emptyPartial, n)
            | None \<Rightarrow>
                (emptyPartial\<lparr>p_locations :=
                    Some (locations config @ [hiddenFilesLocation note (gen n) affected])\<rparr>,
                 Suc n)))"

text \<open>The three header rules share their shape; they differ in the header and its value.\<close>

definition headerFailing :: "string \<Rightarrow> ServerConfig \<Rightarrow> bool" where
  "headerFailing headerName server =
     (if \<not> serverNeedsSecurityHeaders server then False
      else \<not> hasAddHeader (srv_customDirectives server) headerName)"

definition fix_header :: "string \<Rightarrow> string \<Rightarrow> NginxConfig \<Rightarrow> string \<Rightarrow> PartialConfig" where
  "fix_header headerName headerValue config affected =
     (if affected = [] then emptyPartial
      else if (case find (\<lambda>s. srv_id s = affected) (servers config) of
                 Some server \<Rightarrow> \<not> serverNeedsSecurityHeaders server
               | None \<Rightarrow> False)
      then emptyPartial
      else emptyPartial\<lparr>p_servers := Some (map (\<lambda>s.
             if srv_id s = affected
             then s\<lparr>srv_customDirectives :=
                     smartAddHeader (srv_customDirectives s) headerName headerValue True\<rparr>
             else s) (servers config))\<rparr>)"

definition check_x_frame_options :: "uuidgen \<Rightarrow> nat \<Rightarrow> NginxConfig \<Rightarrow> AuditIssue list \<times> nat" where
  "check_x_frame_options gen n config =
     forEachIssue (headerFailing ''X-Frame-Options'')
       (\<lambda>i server. mkIssue i ''security-x-frame-options'' Warning Security (Some (srv_id server))
                      NServer True)
       gen n (servers config)"

definition check_x_content_type :: "uuidgen \<Rightarrow> nat \<Rightarrow> NginxConfig \<Rightarrow> AuditIssue list \<times> nat" where
  "check_x_content_type gen n config =
     forEachIssue (headerFailing ''X-Content-Type-Options'')
       (\<lambda>i server. mkIssue i ''security-x-content-type'' Warning Security (Some (srv_id server))
                      NServer True)
       gen n (servers config)"

definition hstsFailing :: "ServerConfig \<Rightarrow> bool" where
  "hstsFailing server =
     (if \<not> serverNeedsSecurityHeaders server then False
      else if ssl_enabled (ssl server) \<and> port (listen server) = 443
           then \<not> hasAddHeader (srv_customDirectives server) ''Strict-Transport-Security''
           else False)"

definition check_hsts :: "uuidgen \<Rightarrow> nat \<Rightarrow> NginxConfig \<Rightarrow> AuditIssue list \<times> nat" where
  "check_hsts gen n config =
     forEachIssue hstsFailing
       (\<lambda>i server. mkIssue i ''security-hsts'' Critical Security (Some (srv_id server)) NServer True)
       gen n (servers config)"

subsection \<open>Performance rules\<close>

definition check_gzip :: "uuidgen \<Rightarrow> nat \<Rightarrow> NginxConfig \<Rightarrow> AuditIssue list \<times> nat" where
  "check_gzip gen n config =
     singleIssue (\<not> gz_enabled (gzip (http config)))
       (\<lambda>i. mkIssue i ''perf-gzip'' Warning Performance None NHttp True) gen n"

definition defaultGzipTypes :: "string list" where
  "defaultGzipTypes =
     [''text/plain'', ''text/css'', ''application/json'', ''application/javascript'',
      ''text/xml'', ''application/xml'', ''image/svg+xml'']"

definition fix_gzip :: "NginxConfig \<Rightarrow> PartialConfig" where
  "fix_gzip config =
     emptyPartial\<lparr>p_http := Some ((http config)
        \<lparr>gzip := (gzip (http config))
           \<lparr>gz_enabled := True,
            compLevel := (if compLevel (gzip (http config)) = 0 then 6
                          else compLevel (gzip (http config))),
            types := (if length (types (gzip (http config))) > 0 then types (gzip (http config))
                      else defaultGzipTypes)\<rparr>,
         http_customDirectives :=
           removeDirectives (http_customDirectives (http config))
             [''gzip'', ''gzip_comp_level'', ''gzip_types'', ''gzip_min_length'']\<rparr>)\<rparr>"

definition check_sendfile :: "uuidgen \<Rightarrow> nat \<Rightarrow> NginxConfig \<Rightarrow> AuditIssue list \<times> nat" where
  "check_sendfile gen n config =
     singleIssue (\<not> sendfile (http config))
       (\<lambda>i. mkIssue i ''perf-sendfile'' Info Performance None NHttp True) gen n"

definition fix_sendfile :: "NginxConfig \<Rightarrow> PartialConfig" where
  "fix_sendfile config =
     emptyPartial\<lparr>p_http := Some ((http config)
        \<lparr>sendfile := True,
         http_customDirectives := removeDirective (http_customDirectives (http config)) ''sendfile''\<rparr>)\<rparr>"

definition check_tcp_nodelay :: "uuidgen \<Rightarrow> nat \<Rightarrow> NginxConfig \<Rightarrow> AuditIssue list \<times> nat" where
  "check_tcp_nodelay gen n config =
     singleIssue (\<not> tcpNodelay (http config))
       (\<lambda>i. mkIssue i ''perf-tcp-nodelay'' Info Performance None NHttp True) gen n"

definition fix_tcp_nodelay :: "NginxConfig \<Rightarrow> PartialConfig" where
  "fix_tcp_nodelay config =
     emptyPartial\<lparr>p_http := Some ((http config)
        \<lparr>tcpNodelay := True,
         http_customDirectives :=
           removeDirective (http_customDirectives (http config)) ''tcp_nodelay''\<rparr>)\<rparr>"

definition check_worker_processes :: "uuidgen \<Rightarrow> nat \<Rightarrow> NginxConfig \<Rightarrow> AuditIssue list \<times> nat" where
  "check_worker_processes gen n config =
     singleIssue (workerProcesses (global config) \<noteq> ''auto'')
       (\<lambda>i. mkIssue i ''perf-worker-processes'' Info Performance None NGlobal True) gen n"

definition fix_worker_processes :: "NginxConfig \<Rightarrow> PartialConfig" where
  "fix_worker_processes config =
     emptyPartial\<lparr>p_global := Some ((global config)
        \<lparr>workerProcesses := ''auto'',
         glb_customDirectives :=
           removeDirective (glb_customDirectives (global config)) ''worker_processes''\<rparr>)\<rparr>"

definition check_keepalive :: "uuidgen \<Rightarrow> nat \<Rightarrow> NginxConfig \<Rightarrow> AuditIssue list \<times> nat" where
  "check_keepalive gen n config =
     singleIssue (keepaliveTimeout (http config) < 60)
       (\<lambda>i. mkIssue i ''perf-keepalive'' Info Performance None NHttp True) gen n"

definition fix_keepalive :: "NginxConfig \<Rightarrow> PartialConfig" where
  "fix_keepalive config =
     emptyPartial\<lparr>p_http := Some ((http config)
        \<lparr>keepaliveTimeout := 65,
         http_customDirectives :=
           removeDirective (http_customDirectives (http config)) ''keepalive_timeout''\<rparr>)\<rparr>"

subsection \<open>Configuration logic rules\<close>

definition check_empty_upstream :: "uuidgen \<Rightarrow> nat \<Rightarrow> NginxConfig \<Rightarrow> AuditIssue list \<times> nat" where
  "check_empty_upstream gen n config =
     forEachIssue (\<lambda>upstream. length (up_servers upstream) = 0)
       (\<lambda>i upstream. mkIssue i ''config-empty-upstream'' Critical ConfigLogic (Some (up_id upstream))
                        NUpstream False)
       gen n (upstreams config)"

definition check_missing_server_name :: "uuidgen \<Rightarrow> nat \<Rightarrow> NginxConfig \<Rightarrow> AuditIssue list \<times> nat" where
  "check_missing_server_name gen n config =
     forEachIssue (\<lambda>server. serverName server = [] \<or> serverName server = ''_'')
       (\<lambda>i server. mkIssue i ''config-missing-server-name'' Warning ConfigLogic (Some (srv_id server))
                      NServer False)
       gen n (servers config)"

subsection \<open>The rule list and the runner\<close>

definition globalFix ::
  "(NginxConfig \<Rightarrow> PartialConfig) \<Rightarrow> uuidgen \<Rightarrow> nat \<Rightarrow> NginxConfig \<Rightarrow> string \<Rightarrow> PartialConfig \<times> nat" where
  "globalFix f gen n config affected = (f config, n)"

definition nodeFix ::
  "(NginxConfig \<Rightarrow> string \<Rightarrow> PartialConfig) \<Rightarrow> uuidgen \<Rightarrow> nat \<Rightarrow> NginxConfig \<Rightarrow> string \<Rightarrow> PartialConfig \<times> nat" where
  "nodeFix f gen n config affected = (f config affected, n)"

definition auditRules :: "string \<Rightarrow> AuditRule list" where
  "auditRules note =
     [\<lparr>rule_id = ''security-server-tokens'', rule_severity = Critical, rule_category = Security,
       rule_check = check_server_tokens, rule_fix = Some (globalFix fix_server_tokens)\<rparr>,
      \<lparr>rule_id = ''security-hidden-files'', rule_severity = Critical, rule_category = Security,
       rule_check = check_hidden_files, rule_fix = Some (fix_hidden_files note)\<rparr>,
      \<lparr>rule_id = ''security-x-frame-options'', rule_severity = Warning, rule_category = Security,
       rule_check = check_x_frame_options,
       rule_fix = Some (nodeFix (fix_header ''X-Frame-Options'' ''SAMEORIGIN''))\<rparr>,
      \<lparr>rule_id = ''security-x-content-type'', rule_severity = Warning, rule_category = Security,
       rule_check = check_x_content_type,
       rule_fix = Some (nodeFix (fix_header ''X-Content-Type-Options'' ''nosniff''))\<rparr>,
      \<lparr>rule_id = ''security-hsts'', rule_severity = Critical, rule_category = Security,
       rule_check = check_hsts,
       rule_fix = Some (nodeFix (fix_header ''Strict-Transport-Security''
                                   ''max-age=31536000; includeSubDomains''))\<rparr>,
      \<lparr>rule_id = ''perf-gzip'', rule_severity = Warning, rule_category = Performance,
       rule_check = check_gzip, rule_fix = Some (globalFix fix_gzip)\<rparr>,
      \<lparr>rule_id = ''perf-sendfile'', rule_severity = Info, rule_category = Performance,
       rule_check = check_sendfile, rule_fix = Some (globalFix fix_sendfile)\<rparr>,
      \<lparr>rule_id = ''perf-tcp-nodelay'', rule_severity = Info, rule_category = Performance,
       rule_check = check_tcp_nodelay, rule_fix = Some (globalFix fix_tcp_nodelay)\<rparr>,
      \<lparr>rule_id = ''perf-worker-processes'', rule_severity = Info, rule_category = Performance,
       rule_check = check_worker_processes, rule_fix = Some (globalFix fix_worker_processes)\<rparr>,
      \<lparr>rule_id = ''perf-keepalive'', rule_severity = Info, rule_category = Performance,
       rule_check = check_keepalive, rule_fix = Some (globalFix fix_keepalive)\<rparr>,
      \<lparr>rule_id = ''config-empty-upstream'', rule_severity = Critical, rule_category = ConfigLogic,
       rule_check = check_empty_upstream, rule_fix = None\<rparr>,
      \<lparr>rule_id = ''config-missing-server-name'', rule_severity = Warning,
       rule_category = ConfigLogic,
       rule_check = check_missing_server_name, rule_fix = None\<rparr>]"

datatype Grade = A | B | C | D | F

record AuditResult =
  score :: int
  grade :: Grade
  issues :: "AuditIssue list"
  passedRules :: nat
  totalRules :: nat





definition applyFix ::
  "string \<Rightarrow> uuidgen \<Rightarrow> nat \<Rightarrow> NginxConfig \<Rightarrow> string \<Rightarrow> string option \<Rightarrow> (PartialConfig \<times> nat) option" where
  "applyFix note gen n config rid affected =
     (case find (\<lambda>r. rule_id r = rid) (auditRules note) of
        None \<Rightarrow> None
      | Some rule \<Rightarrow>
          (case rule_fix rule of
             None \<Rightarrow> None
           | Some f \<Rightarrow> Some (f gen n config (case affected of Some a \<Rightarrow> a | None \<Rightarrow> []))))"

subsection \<open>The fixpoint loop (\<^verbatim>\<open>applyAllFixes\<close>)\<close>







text \<open>The rules by the way their fix treats the node id.\<close>

definition headerRuleIds :: "string list" where
  "headerRuleIds = [''security-x-frame-options'', ''security-x-content-type'', ''security-hsts'']"

definition nodeRuleIds :: "string list" where
  "nodeRuleIds = ''security-hidden-files'' # headerRuleIds"

definition globalRuleIds :: "string list" where
  "globalRuleIds =
     [''security-server-tokens'', ''perf-gzip'', ''perf-sendfile'', ''perf-tcp-nodelay'',
      ''perf-worker-processes'', ''perf-keepalive'']"

definition detectionOnlyRuleIds :: "string list" where
  "detectionOnlyRuleIds = [''config-empty-upstream'', ''config-missing-server-name'']"

text \<open>A sample configuration: one TLS server with a forced redirect, nothing else.\<close>

definition sampleGlobal :: GlobalConfig where
  "sampleGlobal =
     \<lparr>user = ''root'', workerProcesses = ''auto'', errorLog_path = ''/var/log/nginx/error.log'',
      errorLog_level = ''warn'', pid = ''/run/nginx.pid'', glb_customDirectives = []\<rparr>"

definition sampleEvents :: EventsConfig where
  "sampleEvents = \<lparr>workerConnections = 1024, multiAccept = False, ev_customDirectives = []\<rparr>"

definition sampleHttp :: HttpConfig where
  "sampleHttp =
     \<lparr>sendfile = True, tcpNopush = True, tcpNodelay = True, keepaliveTimeout = 65,
      typesHashMaxSize = 2048, defaultType = ''application/octet-stream'', serverTokens = None,
      clientMaxBodySize = ''10m'',
      gzip = \<lparr>gz_enabled = False, compLevel = 6, minLength = 1024, types = []\<rparr>,
      http_customDirectives = []\<rparr>"

definition sampleTlsServer :: ServerConfig where
  "sampleTlsServer =
     \<lparr>srv_id = ''srv-tls'', srv_name = ''Main'',
      listen = \<lparr>port = 443, defaultServer = False, http2 = True\<rparr>,
      serverName = ''example.com'',
      ssl = \<lparr>ssl_enabled = True, certificate = ''/etc/ssl/c.pem'', certificateKey = ''/etc/ssl/k.pem'',
             protocols = [''TLSv1''], ciphers = ''HIGH'', forceRedirect = True\<rparr>,
      root = ''/var/www/html'', index = [''index.html''], srv_customDirectives = []\<rparr>"

definition sampleConfig :: NginxConfig where
  "sampleConfig =
     \<lparr>global = sampleGlobal, events = sampleEvents, http = sampleHttp, upstreams = [],
      servers = [sampleTlsServer], locations = [], rawConfig = None\<rparr>"

definition sampleGen :: uuidgen where
  "sampleGen n = ''uuid-'' @ replicate n CHR ''i''"

definition sampleNote :: string where
  "sampleNote = ''# block hidden files''"

text \<open>The argument \<^verbatim>\<open>affectedNodeId || ''\<close> that a fix receives.\<close>

definition nodeOf :: "string option \<Rightarrow> string" where
  "nodeOf affected = (case affected of Some a \<Rightarrow> a | None \<Rightarrow> [])"






section \<open>Properties of the location matcher\<close>

lemma exactLoop_find: "exactLoop p locs = exactTier p locs"
  by (induction locs) (simp_all add: exactTier_def)

lemma regexLoop_find: "fst (regexLoop rx p locs) = find (regexHit rx p) locs"
  by (induction locs) (auto simp: regexHit_def split: option.splits prod.splits)
















lemma exactTier_skip:
  "modifier l \<noteq> MExact \<Longrightarrow> exactLoop p (xs @ l # ys) = exactLoop p (xs @ ys)"
  by (induction xs) simp_all

lemma prefixLoop_skip:
  "\<not> isPrefixType l \<Longrightarrow> prefixLoop p (xs @ l # ys) = prefixLoop p (xs @ ys)"
  by (simp add: prefixLoop_def prefixStep_def isPrefixType_def)

lemma regexLoop_skip:
  assumes "modifier l = MRegex \<or> modifier l = MRegexI" "rx (path l) (modifier l = MRegexI) = None"
  shows "fst (regexLoop rx p (xs @ l # ys)) = fst (regexLoop rx p (xs @ ys))"
  using assms by (induction xs) (auto split: option.splits prod.splits)

lemma regexLoop_warns:
  assumes "modifier l = MRegex \<or> modifier l = MRegexI" "rx (path l) (modifier l = MRegexI) = None"
    and "find (regexHit rx p) xs = None"
  shows "path l \<in> set (snd (regexLoop rx p (xs @ l # ys)))"
  using assms by (induction xs) (auto simp: regexHit_def split: option.splits prod.splits if_splits)

lemma matchLocation_skip:
  assumes "modifier l = MRegex \<or> modifier l = MRegexI" "rx (path l) (modifier l = MRegexI) = None"
  shows "fst (matchLocation rx p (xs @ l # ys)) = fst (matchLocation rx p (xs @ ys))"
proof -
  have 1: "exactLoop p (xs @ l # ys) = exactLoop p (xs @ ys)"
    using assms(1) by (intro exactTier_skip) auto
  have 2: "prefixLoop p (xs @ l # ys) = prefixLoop p (xs @ ys)"
    using assms(1) by (intro prefixLoop_skip) (auto simp: isPrefixType_def)
  have 3: "fst (regexLoop rx p (xs @ l # ys)) = fst (regexLoop rx p (xs @ ys))"
    using assms by (rule regexLoop_skip)
  show ?thesis
    unfolding matchLocation_def 1 2 Let_def using 3
    by (cases "regexLoop rx p (xs @ l # ys)"; cases "regexLoop rx p (xs @ ys)")
       (auto split: option.splits)
qed

lemma matchLocation_warns:
  assumes "modifier l = MRegex \<or> modifier l = MRegexI" "rx (path l) (modifier l = MRegexI) = None"
    and "find (regexHit rx p) xs = None"
    and "priority (fst (matchLocation rx p (xs @ l # ys))) \<noteq> Exact"
    and "priority (fst (matchLocation rx p (xs @ l # ys))) \<noteq> PrefixPriority"
  shows "path l \<in> set (snd (matchLocation rx p (xs @ l # ys)))"
  using regexLoop_warns [OF assms(1-3), of ys] assms(4,5)
  unfolding matchLocation_def Let_def
  by (cases "regexLoop rx p (xs @ l # ys)") (auto split: option.splits if_splits)

lemma prefixLoop_none:
  "\<forall>l \<in> set locs. \<not> (isPrefixType l \<and> prefix (path l) p) \<Longrightarrow> prefixLoop p locs = (None, 0)"
  unfolding prefixLoop_def
  by (induction locs) (auto simp: prefixStep_def isPrefixType_def)

lemma matchLocation_none:
  assumes "\<forall>l \<in> set locs. \<not> (modifier l = MExact \<and> path l = p) \<and>
             \<not> (isPrefixType l \<and> prefix (path l) p) \<and> \<not> regexHit rx p l"
  shows "fst (matchLocation rx p locs) = \<lparr>matchedLocation = None, priority = NoMatch\<rparr>"
proof -
  have 1: "exactLoop p locs = None"
    using assms by (simp add: exactLoop_find exactTier_def find_None_iff)
  have 2: "prefixLoop p locs = (None, 0)" using assms by (intro prefixLoop_none) auto
  have 3: "fst (regexLoop rx p locs) = None"
    using assms by (simp add: regexLoop_find find_None_iff)
  show ?thesis unfolding matchLocation_def 1 2 Let_def using 3
    by (cases "regexLoop rx p locs") auto
qed

lemma prefixLoop_mem:
  "fst (foldl (prefixStep p) acc locs) = Some b \<Longrightarrow> b \<in> set locs \<or> fst acc = Some b"
proof (induction locs arbitrary: acc)
  case Nil
  then show ?case by simp
next
  case (Cons l locs)
  have "fst (prefixStep p acc l) = fst acc \<or> fst (prefixStep p acc l) = Some l"
    by (simp add: prefixStep_def)
  moreover have "b \<in> set locs \<or> fst (prefixStep p acc l) = Some b"
    using Cons.prems by (intro Cons.IH) simp
  ultimately show ?case by auto
qed

lemma matchLocation_sound:
  "(\<forall>l. matchedLocation (fst (matchLocation rx p locs)) = Some l \<longrightarrow> l \<in> set locs) \<and>
   (matchedLocation (fst (matchLocation rx p locs)) = None \<longleftrightarrow>
      priority (fst (matchLocation rx p locs)) = NoMatch)"
proof -
  have e: "\<And>l. exactLoop p locs = Some l \<Longrightarrow> l \<in> set locs"
    by (simp add: exactLoop_find exactTier_def find_Some_iff) (metis nth_mem)
  have r: "\<And>l. fst (regexLoop rx p locs) = Some l \<Longrightarrow> l \<in> set locs"
    by (simp add: regexLoop_find find_Some_iff) (metis nth_mem)
  have b: "\<And>l. fst (prefixLoop p locs) = Some l \<Longrightarrow> l \<in> set locs"
    unfolding prefixLoop_def using prefixLoop_mem [of p "(None, 0)" locs] by auto
  show ?thesis
    unfolding matchLocation_def Let_def using e r b
    by (cases "regexLoop rx p locs") (auto split: option.splits)
qed


subsection \<open>The priority tiers\<close>




subsection \<open>Totality and invalid patterns\<close>

text \<open>
  Claim C9. \<^verbatim>\<open>matchLocation\<close> returns a result on every request path and every list of
  locs: the only operation that can throw, the construction of the regular expression,
  is a branch of the scan. The location of the result is one of the given locs, and it
  is absent exactly when the priority is \<^verbatim>\<open>none\<close>; when no location is an exact, prefix or
  regex hit the result is the absent location. A regex location whose pattern does not
  compile is skipped: the result is the one computed without it, and whenever the scan
  reaches it (no exact hit, no prefix-priority shortcut, no regex hit before it) its pattern
  is among the recorded diagnostics.
\<close>

theorem matchLocation_total:
  "(\<exists>r ws. matchLocation rx p locs = (r, ws) \<and>
      (\<forall>l. matchedLocation r = Some l \<longrightarrow> l \<in> set locs) \<and>
      (matchedLocation r = None \<longleftrightarrow> priority r = NoMatch)) \<and>
   ((\<forall>l \<in> set locs. \<not> (modifier l = MExact \<and> path l = p) \<and>
        \<not> (isPrefixType l \<and> prefix (path l) p) \<and> \<not> regexHit rx p l) \<longrightarrow>
      fst (matchLocation rx p locs) = \<lparr>matchedLocation = None, priority = NoMatch\<rparr>) \<and>
   ((modifier l = MRegex \<or> modifier l = MRegexI) \<and> rx (path l) (modifier l = MRegexI) = None \<longrightarrow>
      fst (matchLocation rx p (xs @ l # ys)) = fst (matchLocation rx p (xs @ ys)) \<and>
      (find (regexHit rx p) xs = None \<and>
       priority (fst (matchLocation rx p (xs @ l # ys))) \<noteq> Exact \<and>
       priority (fst (matchLocation rx p (xs @ l # ys))) \<noteq> PrefixPriority \<longrightarrow>
         path l \<in> set (snd (matchLocation rx p (xs @ l # ys)))))"
proof -
  have a: "\<exists>r ws. matchLocation rx p locs = (r, ws) \<and>
      (\<forall>l. matchedLocation r = Some l \<longrightarrow> l \<in> set locs) \<and>
      (matchedLocation r = None \<longleftrightarrow> priority r = NoMatch)"
    using matchLocation_sound [of rx p locs] by (cases "matchLocation rx p locs") auto
  show ?thesis
    using a matchLocation_none [of locs p rx] matchLocation_skip [of l rx p xs ys]
      matchLocation_warns [of l rx p xs ys]
    by blast
qed

theorem matchLocation_total_witness:
  "(modifier (mkLocation sampleLocation MRegex ''('') = MRegex \<or>
    modifier (mkLocation sampleLocation MRegex ''('') = MRegexI) \<and>
   imageEngine (path (mkLocation sampleLocation MRegex ''(''))
     (modifier (mkLocation sampleLocation MRegex ''('') = MRegexI) = None \<and>
   list_all (\<lambda>l. \<not> (modifier l = MExact \<and> path l = ''/img/a.png'') \<and>
       \<not> (isPrefixType l \<and> prefix (path l) ''/img/a.png'') \<and>
       \<not> regexHit imageEngine ''/img/a.png'' l) [mkLocation sampleLocation MExact ''/health''] \<and>
   fst (matchLocation imageEngine ''/img/a.png'' [mkLocation sampleLocation MExact ''/health'']) =
     \<lparr>matchedLocation = None, priority = NoMatch\<rparr> \<and>
   fst (matchLocation imageEngine ''/img/a.png''
     ([] @ mkLocation sampleLocation MRegex ''('' # exampleLocations sampleLocation)) =
   fst (matchLocation imageEngine ''/img/a.png'' ([] @ exampleLocations sampleLocation)) \<and>
   matchLocation imageEngine ''/img/a.png''
     ([] @ mkLocation sampleLocation MRegex ''('' # exampleLocations sampleLocation) =
     (\<lparr>matchedLocation = Some (mkLocation sampleLocation MRegexI imagePattern), priority = Regex\<rparr>,
      [''(''])"
proof -
  have h: "modifier (mkLocation sampleLocation MRegex ''('') = MRegex"
    "imageEngine (path (mkLocation sampleLocation MRegex ''(''))
       (modifier (mkLocation sampleLocation MRegex ''('') = MRegexI) = None"
    by (simp_all add: mkLocation_def imageEngine_def imagePattern_def)
  have n: "\<forall>l \<in> set [mkLocation sampleLocation MExact ''/health''].
       \<not> (modifier l = MExact \<and> path l = ''/img/a.png'') \<and>
       \<not> (isPrefixType l \<and> prefix (path l) ''/img/a.png'') \<and>
       \<not> regexHit imageEngine ''/img/a.png'' l"
    by (simp add: mkLocation_def isPrefixType_def regexHit_def)
  have e: "matchLocation imageEngine ''/img/a.png''
     ([] @ mkLocation sampleLocation MRegex ''('' # exampleLocations sampleLocation) =
     (\<lparr>matchedLocation = Some (mkLocation sampleLocation MRegexI imagePattern), priority = Regex\<rparr>,
      [''(''])"
    by (simp add: matchLocation_def exampleLocations_def mkLocation_def prefixLoop_def
        prefixStep_def imageEngine_def imagePattern_def imageTest_def suffix_def)
  show ?thesis
    using h n e
      matchLocation_total [of imageEngine "''/img/a.png''"
        "[mkLocation sampleLocation MExact ''/health'']"
        "mkLocation sampleLocation MRegex ''(''" "[]" "exampleLocations sampleLocation"]
    unfolding list_all_iff by blast
qed

section \<open>Properties of the \<^verbatim>\<open>listen\<close> parser\<close>

















section \<open>Properties of the directive cleaner\<close>


section \<open>Properties of the port-collision resolver\<close>

lemma find_mem: "find P xs = Some x \<Longrightarrow> x \<in> set xs \<and> P x"
  by (induction xs) (auto split: if_splits)

lemma if_filter_extra:
  "(if length xs > 0 then filter (\<lambda>s. f s \<notin> set (map g xs)) ys else ys) =
   filter (\<lambda>s. f s \<notin> set (map g xs)) ys"
  by (cases xs) simp_all

text \<open>
  When the target \<open>sid\<close> has an existing port-80 server \<open>T\<close> of its name: no identifier is
  generated; no location refers to \<open>T\<close>; every server with \<open>T\<close>'s identifier has an empty
  root and index, port 80, TLS disabled and the redirect directive as its whole passthrough
  text, and there is one; no other server listens on port 80 under that name, and the
  servers removed for that reason have no location left; every server with the target's
  identifier has TLS enabled and the redirect flag cleared; and the target is still there
  when no server with its identifier listens on port 80.
\<close>

lemma applyForceHttps_existing:
  assumes S: "find (\<lambda>s. srv_id s = sid) (servers config) = Some S"
    and T: "findHttpNode config (serverName S) (Some sid) = Some T"
  shows "applyForceHttps gen n config sid =
     (config\<lparr>servers := hijackServers config sid (serverName S) (srv_id T),
             locations := hijackLocations config (serverName S) (srv_id T)\<rparr>, n)"
  unfolding applyForceHttps_def S T option.case Let_def if_filter_extra hijackServers_def
    hijackLocations_def
  by (rule refl)

lemma conv_fields:
  "srv_id (convertToPureRedirectHttpServer s sname) = srv_id s"
  "port (listen (convertToPureRedirectHttpServer s sname)) = 80"
  "serverName (convertToPureRedirectHttpServer s sname) = sname"
  "root (convertToPureRedirectHttpServer s sname) = []"
  "index (convertToPureRedirectHttpServer s sname) = []"
  "\<not> ssl_enabled (ssl (convertToPureRedirectHttpServer s sname))"
  "srv_customDirectives (convertToPureRedirectHttpServer s sname) = redirectDirective"
  by (simp_all add: convertToPureRedirectHttpServer_def)

lemma applyForceHttps_hijack:
  assumes S: "find (\<lambda>s. srv_id s = sid) (servers config) = Some S"
    and T: "findHttpNode config (serverName S) (Some sid) = Some T"
  shows "snd (applyForceHttps gen n config sid) = n"
    and "\<forall>l \<in> set (locations (fst (applyForceHttps gen n config sid))). serverId l \<noteq> srv_id T"
    and "\<forall>s \<in> set (servers (fst (applyForceHttps gen n config sid))).
           srv_id s = srv_id T \<longrightarrow>
             root s = [] \<and> index s = [] \<and> port (listen s) = 80 \<and> \<not> ssl_enabled (ssl s) \<and>
             srv_customDirectives s = redirectDirective"
    and "\<exists>s \<in> set (servers (fst (applyForceHttps gen n config sid))). srv_id s = srv_id T"
    and "\<forall>s \<in> set (servers (fst (applyForceHttps gen n config sid))).
           port (listen s) = 80 \<and> serverName s = serverName S \<longrightarrow> srv_id s = srv_id T"
    and "\<forall>x \<in> set (servers config).
           srv_id x \<noteq> srv_id T \<and> port (listen x) = 80 \<and> serverName x = serverName S \<longrightarrow>
             (\<forall>l \<in> set (locations (fst (applyForceHttps gen n config sid))). serverId l \<noteq> srv_id x) \<and>
             (\<forall>s \<in> set (servers (fst (applyForceHttps gen n config sid))). srv_id s \<noteq> srv_id x)"
    and "\<forall>s \<in> set (servers (fst (applyForceHttps gen n config sid))).
           srv_id s = sid \<longrightarrow> ssl_enabled (ssl s) \<and> \<not> forceRedirect (ssl s)"
    and "(\<forall>s \<in> set (servers config). srv_id s = sid \<longrightarrow> port (listen s) \<noteq> 80) \<longrightarrow>
           (\<exists>s \<in> set (servers (fst (applyForceHttps gen n config sid))). srv_id s = sid)"
proof -
  define tid where "tid = srv_id T"
  define sname where "sname = serverName S"
  define conv where "conv = (\<lambda>s::ServerConfig. if srv_id s = tid then convertToPureRedirectHttpServer s sname else s)"
  define cf where "cf = (\<lambda>s::ServerConfig. if srv_id s = sid
              then s\<lparr>ssl := (ssl s)\<lparr>ssl_enabled := True, forceRedirect := False\<rparr>\<rparr> else s)"
  define extra where "extra = (\<lambda>s::ServerConfig. srv_id s \<noteq> tid \<and> port (listen s) = 80 \<and> serverName s = sname)"
  define E where "E = set (map srv_id (filter extra (map conv (servers config))))"
  let ?c = "fst (applyForceHttps gen n config sid)"
  have e: "applyForceHttps gen n config sid =
     (config\<lparr>servers := map cf (filter (\<lambda>s. srv_id s \<notin> E) (map conv (servers config))),
             locations := filter (\<lambda>l. serverId l \<notin> E) (filter (\<lambda>l. serverId l \<noteq> tid) (locations config))\<rparr>, n)"
    unfolding applyForceHttps_existing [OF S T] hijackServers_def hijackLocations_def
      tid_def sname_def conv_def cf_def extra_def E_def ..
  have Sm: "S \<in> set (servers config)" "srv_id S = sid" using find_mem [OF S] by auto
  have Tm: "T \<in> set (servers config)" "tid \<noteq> sid" "port (listen T) = 80" "serverName T = sname"
    using find_mem [OF T [unfolded findHttpNode_def]] by (auto simp: isHttpNodeFor_def tid_def sname_def)
  have conv_id: "\<And>s. srv_id (conv s) = srv_id s" by (simp add: conv_def conv_fields)
  have cf_id: "\<And>s. srv_id (cf s) = srv_id s" by (simp add: cf_def)
  have cf_keep: "\<And>s. listen (cf s) = listen s \<and> serverName (cf s) = serverName s \<and>
      root (cf s) = root s \<and> index (cf s) = index s \<and> srv_customDirectives (cf s) = srv_customDirectives s"
    by (simp add: cf_def)
  have cf_other: "\<And>s. srv_id s \<noteq> sid \<Longrightarrow> cf s = s" by (simp add: cf_def)
  have tidE: "tid \<notin> E" by (auto simp: E_def extra_def)
  have extraE: "\<And>x. x \<in> set (servers config) \<Longrightarrow> extra x \<Longrightarrow> srv_id x \<in> E"
  proof -
    fix x assume x: "x \<in> set (servers config)" "extra x"
    then have "conv x = x" by (simp add: conv_def extra_def)
    with x have "x \<in> set (filter extra (map conv (servers config)))" by (auto simp: image_iff intro!: bexI [of _ x])
    then show "srv_id x \<in> E" unfolding E_def by auto
  qed
  have mem: "\<And>s'. s' \<in> set (servers ?c) \<longleftrightarrow>
      (\<exists>s \<in> set (servers config). s' = cf (conv s) \<and> srv_id s \<notin> E)"
    by (auto simp: e conv_id image_iff)
  have sn: "sname = serverName S" "tid = srv_id T" by (simp_all add: sname_def tid_def)
  show "snd (applyForceHttps gen n config sid) = n" by (simp add: e)
  show "\<forall>l \<in> set (locations ?c). serverId l \<noteq> srv_id T"
    by (simp add: e tid_def)
  show "\<forall>s \<in> set (servers ?c). srv_id s = srv_id T \<longrightarrow>
             root s = [] \<and> index s = [] \<and> port (listen s) = 80 \<and> \<not> ssl_enabled (ssl s) \<and>
             srv_customDirectives s = redirectDirective"
  proof (intro ballI impI)
    fix s' assume "s' \<in> set (servers ?c)" and i: "srv_id s' = srv_id T"
    then obtain s where s: "s \<in> set (servers config)" "s' = cf (conv s)" using mem by blast
    with i have "srv_id s = tid" by (simp add: cf_id conv_id tid_def)
    then have "conv s = convertToPureRedirectHttpServer s sname" "srv_id (conv s) \<noteq> sid"
      using Tm(2) by (simp_all add: conv_def conv_fields)
    then have "s' = convertToPureRedirectHttpServer s sname" using s(2) cf_other by simp
    then show "root s' = [] \<and> index s' = [] \<and> port (listen s') = 80 \<and> \<not> ssl_enabled (ssl s') \<and>
             srv_customDirectives s' = redirectDirective"
      by (simp add: conv_fields)
  qed
  show "\<exists>s \<in> set (servers ?c). srv_id s = srv_id T"
  proof -
    have "cf (conv T) \<in> set (servers ?c)" using mem Tm(1) tidE by (auto simp: tid_def)
    moreover have "srv_id (cf (conv T)) = srv_id T" by (simp add: cf_id conv_id)
    ultimately show ?thesis by blast
  qed
  show "\<forall>s \<in> set (servers ?c). port (listen s) = 80 \<and> serverName s = serverName S \<longrightarrow> srv_id s = srv_id T"
  proof (intro ballI impI)
    fix s' assume "s' \<in> set (servers ?c)" and p: "port (listen s') = 80 \<and> serverName s' = serverName S"
    then obtain s where s: "s \<in> set (servers config)" "s' = cf (conv s)" "srv_id s \<notin> E"
      using mem by blast
    show "srv_id s' = srv_id T"
    proof (rule ccontr)
      assume "srv_id s' \<noteq> srv_id T"
      then have ne: "srv_id s \<noteq> tid" using s(2) by (simp add: cf_id conv_id tid_def)
      then have "conv s = s" by (simp add: conv_def)
      with p s(2) have "extra s" using ne cf_keep [of s] by (simp add: extra_def sname_def)
      then show False using extraE s(1,3) by blast
    qed
  qed
  show "\<forall>x \<in> set (servers config).
           srv_id x \<noteq> srv_id T \<and> port (listen x) = 80 \<and> serverName x = serverName S \<longrightarrow>
             (\<forall>l \<in> set (locations ?c). serverId l \<noteq> srv_id x) \<and>
             (\<forall>s \<in> set (servers ?c). srv_id s \<noteq> srv_id x)"
  proof (intro ballI impI)
    fix x assume x: "x \<in> set (servers config)"
      and "srv_id x \<noteq> srv_id T \<and> port (listen x) = 80 \<and> serverName x = serverName S"
    then have "extra x" by (simp add: extra_def tid_def sname_def)
    then have xE: "srv_id x \<in> E" using extraE x by blast
    have 1: "\<forall>l \<in> set (locations ?c). serverId l \<noteq> srv_id x" using xE by (auto simp: e)
    have 2: "\<forall>s \<in> set (servers ?c). srv_id s \<noteq> srv_id x"
      using xE mem by (auto simp: cf_id conv_id)
    from 1 2 show "(\<forall>l \<in> set (locations ?c). serverId l \<noteq> srv_id x) \<and>
             (\<forall>s \<in> set (servers ?c). srv_id s \<noteq> srv_id x)" by blast
  qed
  show "\<forall>s \<in> set (servers ?c). srv_id s = sid \<longrightarrow> ssl_enabled (ssl s) \<and> \<not> forceRedirect (ssl s)"
  proof (intro ballI impI)
    fix s' assume "s' \<in> set (servers ?c)" and i: "srv_id s' = sid"
    then obtain s where s: "s' = cf (conv s)" using mem by blast
    with i have "srv_id (conv s) = sid" by (simp add: cf_id)
    then show "ssl_enabled (ssl s') \<and> \<not> forceRedirect (ssl s')" unfolding s by (simp add: cf_def)
  qed
  show "(\<forall>s \<in> set (servers config). srv_id s = sid \<longrightarrow> port (listen s) \<noteq> 80) \<longrightarrow>
           (\<exists>s \<in> set (servers ?c). srv_id s = sid)"
  proof
    assume a: "\<forall>s \<in> set (servers config). srv_id s = sid \<longrightarrow> port (listen s) \<noteq> 80"
    have "sid \<notin> E"
    proof
      assume "sid \<in> E"
      then obtain y where y: "y \<in> set (servers config)" "extra (conv y)" "srv_id (conv y) = sid"
        unfolding E_def by auto
      then have "srv_id y = sid" by (simp add: conv_id)
      then have "conv y = y" using Tm(2) by (simp add: conv_def)
      with y a show False by (auto simp: extra_def)
    qed
    then have "cf (conv S) \<in> set (servers ?c)" using mem Sm by auto
    moreover have "srv_id (cf (conv S)) = sid" using Sm by (simp add: cf_id conv_id)
    ultimately show "\<exists>s \<in> set (servers ?c). srv_id s = sid" by blast
  qed
qed

text \<open>
  Claim C3. The target of the resolver is a TLS server with a forced redirect, and another
  server \<open>T\<close> listens on port 80 under the same name. When the target itself listens on
  port 80, the removal of the other port-80 servers of that name removes the target and its
  location: the result holds the converted \<open>T\<close> alone, and no server with the target's
  identifier is left to carry the enabled TLS and the cleared redirect flag.
\<close>

theorem applyForceHttps_deletes_target:
  "find (\<lambda>s. srv_id s = ''srv-tls'') (servers (collisionConfig tlsOnPort80)) = Some tlsOnPort80 \<and>
   ssl_enabled (ssl tlsOnPort80) \<and> forceRedirect (ssl tlsOnPort80) \<and>
   findHttpNode (collisionConfig tlsOnPort80) (serverName tlsOnPort80) (Some ''srv-tls'') =
     Some plainHttpServer \<and>
   applyForceHttps firstUuid 0 (collisionConfig tlsOnPort80) ''srv-tls'' =
     (\<lparr>global = emptyGlobal, events = plainEvents, http = plainHttp, upstreams = [],
       servers = [convertToPureRedirectHttpServer plainHttpServer ''example.com''],
       locations = [], rawConfig = None\<rparr>, 0) \<and>
   ''srv-tls'' \<notin> set (map srv_id (servers (fst
       (applyForceHttps firstUuid 0 (collisionConfig tlsOnPort80) ''srv-tls''))))"
  by (simp add: applyForceHttps_def collisionConfig_def tlsOnPort80_def plainHttpServer_def
      findHttpNode_def isHttpNodeFor_def convertToPureRedirectHttpServer_def sampleLocation_def Let_def)


subsection \<open>The cleaning stage and the overwrites of \<^verbatim>\<open>applyAllFixes\<close>\<close>





























section \<open>Properties of the audit engine\<close>







section \<open>Properties of the rule fixes\<close>

lemma rule_lookup:
  "find (\<lambda>r. rule_id r = ''security-server-tokens'') (auditRules note) = Some (auditRules note ! 0)"
  "find (\<lambda>r. rule_id r = ''security-hidden-files'') (auditRules note) = Some (auditRules note ! 1)"
  "find (\<lambda>r. rule_id r = ''security-x-frame-options'') (auditRules note) = Some (auditRules note ! 2)"
  "find (\<lambda>r. rule_id r = ''security-x-content-type'') (auditRules note) = Some (auditRules note ! 3)"
  "find (\<lambda>r. rule_id r = ''security-hsts'') (auditRules note) = Some (auditRules note ! 4)"
  "find (\<lambda>r. rule_id r = ''perf-gzip'') (auditRules note) = Some (auditRules note ! 5)"
  "find (\<lambda>r. rule_id r = ''perf-sendfile'') (auditRules note) = Some (auditRules note ! 6)"
  "find (\<lambda>r. rule_id r = ''perf-tcp-nodelay'') (auditRules note) = Some (auditRules note ! 7)"
  "find (\<lambda>r. rule_id r = ''perf-worker-processes'') (auditRules note) = Some (auditRules note ! 8)"
  "find (\<lambda>r. rule_id r = ''perf-keepalive'') (auditRules note) = Some (auditRules note ! 9)"
  "find (\<lambda>r. rule_id r = ''config-empty-upstream'') (auditRules note) = Some (auditRules note ! 10)"
  "find (\<lambda>r. rule_id r = ''config-missing-server-name'') (auditRules note) = Some (auditRules note ! 11)"
  by (simp_all add: auditRules_def)

lemma rule_fixes:
  "rule_fix (auditRules note ! 0) = Some (globalFix fix_server_tokens)"
  "rule_fix (auditRules note ! 1) = Some (fix_hidden_files note)"
  "rule_fix (auditRules note ! 2) = Some (nodeFix (fix_header ''X-Frame-Options'' ''SAMEORIGIN''))"
  "rule_fix (auditRules note ! 3) = Some (nodeFix (fix_header ''X-Content-Type-Options'' ''nosniff''))"
  "rule_fix (auditRules note ! 4) =
     Some (nodeFix (fix_header ''Strict-Transport-Security'' ''max-age=31536000; includeSubDomains''))"
  "rule_fix (auditRules note ! 5) = Some (globalFix fix_gzip)"
  "rule_fix (auditRules note ! 6) = Some (globalFix fix_sendfile)"
  "rule_fix (auditRules note ! 7) = Some (globalFix fix_tcp_nodelay)"
  "rule_fix (auditRules note ! 8) = Some (globalFix fix_worker_processes)"
  "rule_fix (auditRules note ! 9) = Some (globalFix fix_keepalive)"
  "rule_fix (auditRules note ! 10) = None"
  "rule_fix (auditRules note ! 11) = None"
  by (simp_all add: auditRules_def)


lemma applyFix_rules:
  "applyFix note gen n config ''security-server-tokens'' node = Some (fix_server_tokens config, n)"
  "applyFix note gen n config ''security-hidden-files'' node =
     Some (fix_hidden_files note gen n config (nodeOf node))"
  "applyFix note gen n config ''security-x-frame-options'' node =
     Some (fix_header ''X-Frame-Options'' ''SAMEORIGIN'' config (nodeOf node), n)"
  "applyFix note gen n config ''security-x-content-type'' node =
     Some (fix_header ''X-Content-Type-Options'' ''nosniff'' config (nodeOf node), n)"
  "applyFix note gen n config ''security-hsts'' node =
     Some (fix_header ''Strict-Transport-Security'' ''max-age=31536000; includeSubDomains'' config
             (nodeOf node), n)"
  "applyFix note gen n config ''perf-gzip'' node = Some (fix_gzip config, n)"
  "applyFix note gen n config ''perf-sendfile'' node = Some (fix_sendfile config, n)"
  "applyFix note gen n config ''perf-tcp-nodelay'' node = Some (fix_tcp_nodelay config, n)"
  "applyFix note gen n config ''perf-worker-processes'' node = Some (fix_worker_processes config, n)"
  "applyFix note gen n config ''perf-keepalive'' node = Some (fix_keepalive config, n)"
  "applyFix note gen n config ''config-empty-upstream'' node = None"
  "applyFix note gen n config ''config-missing-server-name'' node = None"
  unfolding applyFix_def rule_lookup option.case rule_fixes globalFix_def nodeFix_def nodeOf_def
  by (rule refl)+

lemma map_no_match:
  "\<forall>s \<in> set xs. srv_id s \<noteq> node \<Longrightarrow> map (\<lambda>s. if srv_id s = node then f s else s) xs = xs"
  by (induction xs) auto

lemma find_no_match: "\<forall>s \<in> set xs. srv_id s \<noteq> node \<Longrightarrow> find (\<lambda>s. srv_id s = node) xs = None"
  by (induction xs) auto

lemma merge_empty: "mergePartial config emptyPartial = config"
  by (cases config) (simp add: mergePartial_def emptyPartial_def)

lemma merge_same_servers:
  "mergePartial config (emptyPartial\<lparr>p_servers := Some (servers config)\<rparr>) = config"
  by (cases config) (simp add: mergePartial_def emptyPartial_def)

lemma fix_header_ghost:
  assumes "\<forall>s \<in> set (servers config). srv_id s \<noteq> node"
  shows "mergePartial config (fix_header h v config node) = config"
  using assms
  by (simp add: fix_header_def find_no_match map_no_match merge_empty merge_same_servers)

lemma fix_header_empty: "fix_header h v config [] = emptyPartial"
  by (simp add: fix_header_def)

lemma fix_hidden_empty: "fix_hidden_files note gen n config [] = (emptyPartial, n)"
  by (simp add: fix_hidden_files_def)

text \<open>
  Claim C8. \<^verbatim>\<open>applyFix\<close> returns a value on every input. For each of the three header rules, a
  node id that identifies no server gives a partial update that leaves the configuration
  as it is when merged. For each of the four node-scoped rules, an absent or empty node id
  gives the empty partial update. The six rules whose fix is global do not read the node
  id: they return the same update whatever it is. A detection-only rule and an unknown rule
  id give \<^verbatim>\<open>null\<close>.
\<close>

theorem applyFix_unknown_node:
  "(rid \<in> set headerRuleIds \<and> (\<forall>s \<in> set (servers config). srv_id s \<noteq> node) \<longrightarrow>
      (\<exists>p. applyFix note gen n config rid (Some node) = Some (p, n) \<and> mergePartial config p = config)) \<and>
   (rid \<in> set nodeRuleIds \<longrightarrow>
      applyFix note gen n config rid None = Some (emptyPartial, n) \<and>
      applyFix note gen n config rid (Some []) = Some (emptyPartial, n)) \<and>
   (rid \<in> set globalRuleIds \<longrightarrow>
      applyFix note gen n config rid affected = applyFix note gen n config rid None \<and>
      applyFix note gen n config rid affected \<noteq> None) \<and>
   (rid \<in> set detectionOnlyRuleIds \<or> rid \<notin> set (map rule_id (auditRules note)) \<longrightarrow>
      applyFix note gen n config rid affected = None)"
proof (intro conjI impI)
  assume "rid \<in> set headerRuleIds \<and> (\<forall>s \<in> set (servers config). srv_id s \<noteq> node)"
  then have r: "rid = ''security-x-frame-options'' \<or> rid = ''security-x-content-type'' \<or> rid = ''security-hsts''"
    and g: "\<forall>s \<in> set (servers config). srv_id s \<noteq> node"
    by (simp_all add: headerRuleIds_def)
  from r show "\<exists>p. applyFix note gen n config rid (Some node) = Some (p, n) \<and> mergePartial config p = config"
    using fix_header_ghost [OF g] by (elim disjE) (simp_all add: applyFix_rules nodeOf_def)
next
  assume "rid \<in> set nodeRuleIds"
  then have r: "rid = ''security-hidden-files'' \<or> rid = ''security-x-frame-options'' \<or>
      rid = ''security-x-content-type'' \<or> rid = ''security-hsts''"
    by (simp add: nodeRuleIds_def headerRuleIds_def)
  from r show "applyFix note gen n config rid None = Some (emptyPartial, n)"
    by (elim disjE) (simp_all add: applyFix_rules nodeOf_def fix_header_empty fix_hidden_empty)
  from r show "applyFix note gen n config rid (Some []) = Some (emptyPartial, n)"
    by (elim disjE) (simp_all add: applyFix_rules nodeOf_def fix_header_empty fix_hidden_empty)
next
  assume "rid \<in> set globalRuleIds"
  then have r: "rid = ''security-server-tokens'' \<or> rid = ''perf-gzip'' \<or> rid = ''perf-sendfile'' \<or>
      rid = ''perf-tcp-nodelay'' \<or> rid = ''perf-worker-processes'' \<or> rid = ''perf-keepalive''"
    by (simp add: globalRuleIds_def)
  from r show "applyFix note gen n config rid affected = applyFix note gen n config rid None"
    by (elim disjE) (simp_all add: applyFix_rules)
  from r show "applyFix note gen n config rid affected \<noteq> None"
    by (elim disjE) (simp_all add: applyFix_rules)
next
  assume a: "rid \<in> set detectionOnlyRuleIds \<or> rid \<notin> set (map rule_id (auditRules note))"
  have 1: "rid \<notin> set (map rule_id (auditRules note)) \<Longrightarrow> find (\<lambda>r. rule_id r = rid) (auditRules note) = None"
    by (auto simp: find_None_iff)
  have 2: "rid \<in> set detectionOnlyRuleIds \<Longrightarrow> applyFix note gen n config rid affected = None"
    unfolding detectionOnlyRuleIds_def by (auto simp: applyFix_rules)
  show "applyFix note gen n config rid affected = None"
    using a 1 2 by (auto simp: applyFix_def)
qed


theorem applyFix_unknown_node_witness:
  "''security-hsts'' \<in> set headerRuleIds \<and> ''security-hsts'' \<in> set nodeRuleIds \<and>
   ''perf-gzip'' \<in> set globalRuleIds \<and> ''config-empty-upstream'' \<in> set detectionOnlyRuleIds \<and>
   list_all (\<lambda>s. srv_id s \<noteq> ''ghost'') (servers sampleConfig) \<and>
   (\<exists>p. applyFix sampleNote sampleGen 0 sampleConfig ''security-hsts'' (Some ''ghost'') = Some (p, 0) \<and>
        mergePartial sampleConfig p = sampleConfig) \<and>
   applyFix sampleNote sampleGen 0 sampleConfig ''security-hsts'' None = Some (emptyPartial, 0) \<and>
   applyFix sampleNote sampleGen 0 sampleConfig ''perf-gzip'' (Some ''ghost'') =
     applyFix sampleNote sampleGen 0 sampleConfig ''perf-gzip'' None \<and>
   applyFix sampleNote sampleGen 0 sampleConfig ''config-empty-upstream'' (Some ''ghost'') = None"
proof -
  have h: "''security-hsts'' \<in> set headerRuleIds" "''security-hsts'' \<in> set nodeRuleIds"
    "''perf-gzip'' \<in> set globalRuleIds" "''config-empty-upstream'' \<in> set detectionOnlyRuleIds"
    "\<forall>s \<in> set (servers sampleConfig). srv_id s \<noteq> ''ghost''"
    by (simp_all add: headerRuleIds_def nodeRuleIds_def globalRuleIds_def detectionOnlyRuleIds_def
        sampleConfig_def sampleTlsServer_def)
  show ?thesis
    using h
      applyFix_unknown_node [of "''security-hsts''" sampleConfig "''ghost''" sampleNote sampleGen 0
        "Some ''ghost''"]
      applyFix_unknown_node [of "''perf-gzip''" sampleConfig "''ghost''" sampleNote sampleGen 0
        "Some ''ghost''"]
      applyFix_unknown_node [of "''config-empty-upstream''" sampleConfig "''ghost''" sampleNote
        sampleGen 0 "Some ''ghost''"]
    unfolding list_all_iff by blast
qed

text \<open>
  The claim as first worded has every fix return the empty update on a node id that
  identifies nothing. The fix of a global rule does not read the node id: on the sample
  configuration, where no entity is called \<^verbatim>\<open>ghost\<close>, the gzip fix returns an update with one
  key that turns compression on. The fix of the hidden-files rule does not look the server
  up: it returns a new location owned by \<^verbatim>\<open>ghost\<close>.
\<close>

theorem applyFix_unknown_node_counterexample:
  "''ghost'' \<notin> set (map srv_id (servers sampleConfig)) \<and>
   ''ghost'' \<notin> set (map loc_id (locations sampleConfig)) \<and>
   ''ghost'' \<notin> set (map up_id (upstreams sampleConfig)) \<and>
   applyFix sampleNote sampleGen 0 sampleConfig ''perf-gzip'' (Some ''ghost'') =
     Some (fix_gzip sampleConfig, 0) \<and>
   keyCount (fix_gzip sampleConfig) = 1 \<and>
   \<not> gz_enabled (gzip (http sampleConfig)) \<and>
   gz_enabled (gzip (http (mergePartial sampleConfig (fix_gzip sampleConfig)))) \<and>
   applyFix sampleNote sampleGen 0 sampleConfig ''security-hidden-files'' (Some ''ghost'') =
     Some (emptyPartial\<lparr>p_locations :=
             Some [hiddenFilesLocation sampleNote (sampleGen 0) ''ghost'']\<rparr>, 1)"
  by (simp add: applyFix_rules nodeOf_def sampleConfig_def sampleTlsServer_def sampleHttp_def
      fix_gzip_def keyCount_def emptyPartial_def mergePartial_def fix_hidden_files_def)

subsection \<open>Convergence of the fixpoint loop\<close>



end
